theory Spec2Isabelle
  imports Complex_Main
begin

section \<open>The music module of haru (src/modules/music/Music.js)\<close>

text \<open>
  The module coordinates one playback session per guild. Its methods are \<open>async\<close>
  functions: a rejected promise (\<open>Promise.reject\<close>, or an exception thrown inside the
  \<open>async\<close> body) is the left summand of the result, a resolved one the right summand.
  The fields of the module instance that the methods mutate are threaded through as a
  \<open>state\<close> record; the collaborators the module only calls (cache client, resolver
  backend, permission check, voice transport, JSON parser, clock) are the fields of an
  \<open>env\<close> record. One call is modelled without interleaving of other calls.
\<close>

subsection \<open>Errors\<close>

datatype error =
    NotChannel          \<comment> \<open>\<open>'notChannel'\<close>\<close>
  | AlreadyBinded       \<comment> \<open>\<open>'alreadyBinded'\<close>\<close>
  | NoPerms             \<comment> \<open>\<open>'noPerms'\<close>\<close>
  | ConnError           \<comment> \<open>\<open>'error'\<close>\<close>
  | NoVideoFound        \<comment> \<open>\<open>'noVideoFound'\<close>\<close>
  | InvalidURL          \<comment> \<open>\<open>'invalidURL'\<close>\<close>
  | TooLong             \<comment> \<open>\<open>'tooLong'\<close>\<close>
  | NoSongs             \<comment> \<open>\<open>'noSongs'\<close>\<close>
  | QueueEmpty          \<comment> \<open>the queue module's failure of \<open>shift\<close>\<close>
  | TypeError           \<comment> \<open>property access on \<open>undefined\<close> or \<open>null\<close>\<close>
  | SyntaxError         \<comment> \<open>thrown by \<open>JSON.parse\<close>\<close>
  | Thrown string       \<comment> \<open>an error thrown by a collaborator\<close>

subsection \<open>JavaScript values\<close>

text \<open>
  A string-valued property that may be absent is a \<open>string option\<close>; it is truthy
  when it is present and not the empty string. A number-valued property that may be
  \<open>null\<close> is an \<open>int option\<close>; \<open>null\<close> converts to the number 0.
\<close>

definition truthy_str :: "string option \<Rightarrow> bool" where
  "truthy_str v = (case v of None \<Rightarrow> False | Some s \<Rightarrow> s \<noteq> [])"

definition truthy_num :: "int option \<Rightarrow> bool" where
  "truthy_num v = (case v of None \<Rightarrow> False | Some n \<Rightarrow> n \<noteq> 0)"

definition to_number :: "int option \<Rightarrow> int" where
  "to_number v = (case v of None \<Rightarrow> 0 | Some n \<Rightarrow> n)"

subsection \<open>Channels and guilds\<close>

record guild =
  guild_id :: string
  guild_name :: string

record text_channel =
  tc_id :: string
  tc_guild :: "guild option"

text \<open>
  A voice channel: \<open>voiceMembers\<close> is the list of the keys (member ids) of the
  collection of that name, so \<open>size\<close> is its length and \<open>has\<close> is membership;
  \<open>members\<close> is the member count that \<open>skip\<close> compares with 2.
\<close>

record voice_channel =
  vc_guild :: guild
  voiceMembers :: "string list"
  members :: nat


subsection \<open>Resolver data\<close>

text \<open>
  One candidate encoding of the resolver backend's \<open>formats\<close> list. \<open>itag\<close> is
  the identifier as the backend delivers it (a string, or a number in its decimal
  rendering), \<open>audioBitrate\<close> is a number or \<open>null\<close>, \<open>bitrate\<close> (the
  combined video bitrate) and \<open>url\<close> may be absent. \<open>fmt_format\<close> is the
  property \<open>_format\<close> that \<open>getFormatUrl\<close> writes.
\<close>

record format =
  itag :: string
  container :: string
  audioBitrate :: "int option"
  bitrate :: "string option"
  fmt_url :: "string option"
  fmt_format :: "string option"

text \<open>What \<open>ytdl.getInfoAsync\<close> resolves to.\<close>

record ytdl_info =
  raw_video_id :: "string option"
  raw_title :: "string option"
  raw_thumbnail_url :: "string option"
  length_seconds :: string
  formats :: "format list"

text \<open>
  The same object after \<open>getInfo\<close> has written \<open>url\<close> and \<open>expires\<close>
  into it; this is what \<open>getInfo\<close> returns when \<open>fetchAll\<close> is set.
\<close>

record raw_info = ytdl_info +
  raw_url :: string
  raw_expires :: "int option"

text \<open>
  \<open>formattedInfo\<close>. Every property is optional, since the object can also come out
  of \<open>JSON.parse\<close> of a cache entry. \<open>length_secs\<close> is the property \<open>length\<close>;
  \<open>None\<close> there is \<open>NaN\<close> or an absent property.
\<close>

record formatted_info =
  video_id :: "string option"
  title :: "string option"
  thumbnail_url :: "string option"
  url :: "string option"
  audiourl :: "string option"
  audioformat :: "string option"
  audiotype :: "string option"
  expires :: "int option"
  length_secs :: "int option"

text \<open>
  The values that travel as \<open>mediaInfo\<close>: a falsy value (\<open>null\<close>, \<open>false\<close>,
  \<open>0\<close>, \<open>""\<close>, which \<open>JSON.parse\<close> can yield), a formatted object, or the raw
  resolver object.
\<close>

datatype media = Falsy | Formatted formatted_info | Raw raw_info

fun truthy_media :: "media \<Rightarrow> bool" where
  "truthy_media Falsy = False"
| "truthy_media (Formatted _) = True"
| "truthy_media (Raw _) = True"

text \<open>Property reads on a \<open>mediaInfo\<close> value; reading a property of \<open>null\<close> throws.\<close>

fun media_url :: "media \<Rightarrow> error + string option" where
  "media_url Falsy = Inl TypeError"
| "media_url (Formatted fi) = Inr (url fi)"
| "media_url (Raw ri) = Inr (Some (raw_url ri))"

fun media_audiourl :: "media \<Rightarrow> error + string option" where
  "media_audiourl Falsy = Inl TypeError"
| "media_audiourl (Formatted fi) = Inr (audiourl fi)"
| "media_audiourl (Raw ri) = Inr None"

fun media_length :: "media \<Rightarrow> int option" where
  "media_length Falsy = None"
| "media_length (Formatted fi) = length_secs fi"
| "media_length (Raw ri) = None"

subsection \<open>Module state and collaborators\<close>

text \<open>The calls the module issues to the player module, in the order it issues them.\<close>

datatype event =
    EvPlay voice_channel media "real option"   \<comment> \<open>\<open>player.play(channel, mediaInfo, volume)\<close>\<close>
  | EvStop voice_channel bool                  \<comment> \<open>\<open>player.stop(channel, leave)\<close>\<close>
  | EvSkip string "voice_channel option"       \<comment> \<open>\<open>player.skip(guildId, channel)\<close>\<close>

text \<open>A stored vote value: an array of voter ids, or the number 0 that \<open>skip\<close> stores.\<close>

datatype vote_val = VArr "string list" | VZero

text \<open>
  \<open>connections\<close> and \<open>volume\<close> are the maps that the constructor creates.
  \<open>votes\<close> is the property \<open>this.votes\<close>, which \<open>skip\<close> reads and writes: no
  line of the class creates it, so it is \<open>None\<close> (\<open>undefined\<close>) on the instance as
  constructed, and \<open>Some\<close> of a map only if something outside the class has assigned
  one. \<open>queues\<close> is the state of the queue module, \<open>voiceConnections\<close> gives the
  \<open>playing\<close> flag of each guild's voice connection, \<open>trace\<close> collects the player
  calls.
\<close>

record state =
  connections :: "string \<rightharpoonup> string"
  volume :: "string \<rightharpoonup> real"
  votes :: "(string \<rightharpoonup> vote_val) option"
  queues :: "string \<Rightarrow> media list"
  voiceConnections :: "string \<rightharpoonup> bool"
  trace :: "event list"

datatype cache_reply = ReadFailed | CacheNil | CacheValue string

text \<open>
  The collaborators. \<open>redis_get\<close> is \<open>redis.getAsync\<close> (rejected, \<open>null\<close>, or a
  string), \<open>sha256_hex\<close> the digest, \<open>json_parse\<close> is \<open>JSON.parse\<close> (\<open>None\<close>
  when it throws), \<open>ytdl_getInfo\<close> the resolver backend (\<open>Inl\<close> when it throws,
  \<open>Inr None\<close> for a falsy result), \<open>date_now\<close> is \<open>Date.now()\<close>,
  \<open>hasPermissions\<close> the check of \<open>voiceConnect\<close> and \<open>voiceSpeak\<close> for the
  bot user, \<open>joinVoiceChannel\<close> the voice transport (\<open>Some e\<close> when it throws),
  \<open>bot_id\<close> is \<open>client.user.id\<close>, \<open>getChannel\<close> is \<open>client.getChannel\<close>,
  \<open>player_throws\<close> says which player calls fail.
\<close>

record env =
  redis_get :: "string \<Rightarrow> cache_reply"
  sha256_hex :: "string \<Rightarrow> string"
  json_parse :: "string \<Rightarrow> media option"
  ytdl_getInfo :: "string \<Rightarrow> string + ytdl_info option"
  date_now :: int
  hasPermissions :: "guild \<Rightarrow> bool"
  joinVoiceChannel :: "string \<Rightarrow> string option"
  bot_id :: string
  getChannel :: "string \<Rightarrow> voice_channel option"
  player_throws :: "event \<Rightarrow> string option"

subsection \<open>Channel bindings\<close>

definition bindChannel :: "string \<Rightarrow> string \<Rightarrow> state \<Rightarrow> state" where
  "bindChannel guildID textChannelID s =
     s\<lparr>connections := (connections s)(guildID \<mapsto> textChannelID)\<rparr>"

definition unbindChannel :: "string \<Rightarrow> state \<Rightarrow> state" where
  "unbindChannel guildID s = s\<lparr>connections := (connections s)(guildID := None)\<rparr>"

text \<open>\<open>this.connections.get(guildID) || null\<close>: an empty id is falsy and reads as \<open>null\<close>.\<close>

definition getBoundChannel :: "state \<Rightarrow> string \<Rightarrow> string option" where
  "getBoundChannel s guildID =
     (if truthy_str (connections s guildID) then connections s guildID else None)"

text \<open>
  \<open>connect\<close>. A successful call resolves to the voice connection, which the model
  does not describe further (\<open>Inr ()\<close>).
\<close>

definition connect ::
  "env \<Rightarrow> string option \<Rightarrow> text_channel option \<Rightarrow> state \<Rightarrow> (error + unit) \<times> state" where
  "connect e voiceID textChannel s =
     (case (voiceID, textChannel) of
        (Some v, Some tc) \<Rightarrow>
         (case tc_guild tc of
            None \<Rightarrow> (Inl NotChannel, s)
          | Some g \<Rightarrow>
             if v = [] then (Inl NotChannel, s)
             else
               let channel = connections s (guild_id g) in
               if truthy_str channel \<and> channel \<noteq> Some (tc_id tc)
               then (Inl AlreadyBinded, s)
               else
                 let s1 = bindChannel (guild_id g) (tc_id tc) s in
                 if \<not> hasPermissions e g then (Inl NoPerms, s1)
                 else
                   (case joinVoiceChannel e v of
                      Some err \<Rightarrow> (Inl ConnError, s1)
                    | None \<Rightarrow> (Inr (), s1)))
      | _ \<Rightarrow> (Inl NotChannel, s))"

subsection \<open>parseInt\<close>

text \<open>
  \<open>parseInt(string)\<close> without a radix: leading white space is skipped, a sign is read,
  a prefix \<open>0x\<close> or \<open>0X\<close> selects radix 16, and the longest run of digits of the radix
  is the value; no digit gives \<open>NaN\<close> (\<open>None\<close>). The result is an integer of
  unbounded size here; JavaScript's number is exact below \<open>2 ^ 53\<close>.
\<close>

definition is_space :: "char \<Rightarrow> bool" where
  "is_space c = (of_char c \<in> {9, 10, 11, 12, 13, 32 :: nat})"

definition digit_val :: "char \<Rightarrow> nat option" where
  "digit_val c =
     (let n = (of_char c :: nat) in
      if 48 \<le> n \<and> n \<le> 57 then Some (n - 48)
      else if 97 \<le> n \<and> n \<le> 102 then Some (n - 87)
      else if 65 \<le> n \<and> n \<le> 70 then Some (n - 55)
      else None)"

definition is_digit :: "nat \<Rightarrow> char \<Rightarrow> bool" where
  "is_digit radix c = (case digit_val c of None \<Rightarrow> False | Some d \<Rightarrow> d < radix)"

definition digits_value :: "nat \<Rightarrow> string \<Rightarrow> nat" where
  "digits_value radix ds = foldl (\<lambda>acc c. acc * radix + (case digit_val c of None \<Rightarrow> 0 | Some d \<Rightarrow> d)) 0 ds"

definition parse_digits :: "nat \<Rightarrow> string \<Rightarrow> nat option" where
  "parse_digits radix str =
     (let ds = takeWhile (is_digit radix) str
      in if ds = [] then None else Some (digits_value radix ds))"

definition parse_unsigned :: "string \<Rightarrow> nat option" where
  "parse_unsigned str =
     (if take 2 str = ''0x'' \<or> take 2 str = ''0X''
      then parse_digits 16 (drop 2 str)
      else parse_digits 10 str)"

definition parseInt :: "string \<Rightarrow> int option" where
  "parseInt str =
     (case dropWhile is_space str of
        [] \<Rightarrow> None
      | c # cs \<Rightarrow>
         if c = CHR ''-'' then map_option (\<lambda>n. - int n) (parse_unsigned cs)
         else if c = CHR ''+'' then map_option int (parse_unsigned cs)
         else map_option int (parse_unsigned (c # cs)))"

subsection \<open>Best-audio selection\<close>

text \<open>The two predicates of \<open>getFormatUrl\<close>'s \<open>find\<close> calls.\<close>

definition audio_only :: "format \<Rightarrow> bool" where
  "audio_only f = (to_number (audioBitrate f) > 0 \<and> \<not> truthy_str (bitrate f))"

definition has_audio :: "format \<Rightarrow> bool" where
  "has_audio f = (to_number (audioBitrate f) > 0)"

text \<open>
  \<open>formats.sort((a, b) => b.audioBitrate - a.audioBitrate)\<close>: a stable sort by
  descending audio bitrate. The second \<open>find\<close> runs on the same, sorted array, since
  \<open>sort\<close> sorts in place.
\<close>

definition sort_formats :: "format list \<Rightarrow> format list" where
  "sort_formats fs = sort_key (\<lambda>f. - to_number (audioBitrate f)) fs"

definition getFormatUrl :: "string \<Rightarrow> format list \<Rightarrow> error + format option" where
  "getFormatUrl type fs =
     (let sorted = sort_formats fs;
          bestaudio = (case find audio_only sorted of
                         Some b \<Rightarrow> Some b
                       | None \<Rightarrow> find has_audio sorted)
      in case bestaudio of
           None \<Rightarrow> Inl TypeError
         | Some b \<Rightarrow>
            if \<not> truthy_str (fmt_url b) then Inr None
            else Inr (Some (b\<lparr>fmt_format := Some type\<rparr>)))"

definition itag_in :: "int list \<Rightarrow> format \<Rightarrow> bool" where
  "itag_in tags f = (case parseInt (itag f) of None \<Rightarrow> False | Some n \<Rightarrow> n \<in> set tags)"

definition getBestAudio :: "format list \<Rightarrow> error + format option" where
  "getBestAudio mediaInfo_formats =
     (let fs = filter (itag_in [249, 250, 251]) mediaInfo_formats in
      if fs \<noteq> [] then getFormatUrl ''webm'' fs
      else
        let fs1 = filter (itag_in [141, 140, 139]) mediaInfo_formats;
            fs2 = (if fs1 = [] then filter (\<lambda>f. container f = ''mp4'') mediaInfo_formats
                   else fs1)
        in if fs2 \<noteq> [] then getFormatUrl ''mp4'' fs2 else Inr None)"

subsection \<open>Resolving a reference\<close>

text \<open>
  \<open>new RegExp('&expire=([0-9]+)').exec(url)\<close>: the first position where
  \<open>&expire=\<close> is followed by a digit; the result is the captured run of digits.
\<close>

fun expire_match :: "string \<Rightarrow> string option" where
  "expire_match [] = None"
| "expire_match (c # cs) =
     (let ds = takeWhile (is_digit 10) (drop 8 (c # cs))
      in if take 8 (c # cs) = ''&expire='' \<and> ds \<noteq> [] then Some ds
         else expire_match cs)"

definition cache_key :: "env \<Rightarrow> string \<Rightarrow> string" where
  "cache_key e url_arg = ''music:info:'' @ sha256_hex e url_arg"

text \<open>
  \<open>info.expires\<close> after lines 100 to 105; \<open>None\<close> is \<open>undefined\<close> (or \<open>NaN\<close>).
\<close>

definition info_expires :: "format \<Rightarrow> int option" where
  "info_expires bestaudio =
     (if truthy_str (fmt_url bestaudio) then
        (case fmt_url bestaudio of
           None \<Rightarrow> None
         | Some u \<Rightarrow>
            (case expire_match u of
               None \<Rightarrow> None
             | Some m \<Rightarrow> map_option (\<lambda>n. n - 900) (parseInt m)))
      else None)"

text \<open>
  \<open>getFormatUrl\<close> writes \<open>_format\<close> into the chosen element of \<open>info.formats\<close>
  itself, so the raw object shows the tag as well: the chosen element is the first one of
  the list that equals the result up to the tag.
\<close>

fun mark_format :: "format \<Rightarrow> format list \<Rightarrow> format list" where
  "mark_format b [] = []"
| "mark_format b (f # fs) =
     (if f\<lparr>fmt_format := fmt_format b\<rparr> = b then b # fs else f # mark_format b fs)"

definition getInfo :: "env \<Rightarrow> string \<Rightarrow> bool \<Rightarrow> error + media" where
  "getInfo e url_arg fetchAll =
     (let key = cache_key e url_arg;
          cached = (case redis_get e key of
                      ReadFailed \<Rightarrow> None
                    | CacheNil \<Rightarrow> None
                    | CacheValue v \<Rightarrow> if v = [] then None else Some v)
      in case cached of
           Some v \<Rightarrow>
            (case json_parse e v of None \<Rightarrow> Inl SyntaxError | Some m \<Rightarrow> Inr m)
         | None \<Rightarrow>
            (case ytdl_getInfo e url_arg of
               Inl err \<Rightarrow> Inl (Thrown err)
             | Inr None \<Rightarrow> Inl NoVideoFound
             | Inr (Some info) \<Rightarrow>
                (case raw_video_id info of
                   None \<Rightarrow> Inl NoVideoFound
                 | Some vid \<Rightarrow>
                    if vid = [] then Inl NoVideoFound
                    else
                      let info_url = ''https://www.youtube.com/watch?v='' @ vid in
                      (case getBestAudio (formats info) of
                         Inl err \<Rightarrow> Inl err
                       | Inr None \<Rightarrow> Inl TypeError
                       | Inr (Some bestaudio) \<Rightarrow>
                          let exp = info_expires bestaudio;
                              formattedInfo =
                                \<lparr>video_id = Some vid,
                                 title = raw_title info,
                                 thumbnail_url = raw_thumbnail_url info,
                                 url = Some info_url,
                                 audiourl = fmt_url bestaudio,
                                 audioformat = fmt_format bestaudio,
                                 audiotype = Some (itag bestaudio),
                                 expires = (if truthy_num exp
                                            then Some (date_now e - to_number exp - 300)
                                            else None),
                                 length_secs = parseInt (length_seconds info)\<rparr>
                          in if fetchAll
                             then Inr (Raw \<lparr>raw_video_id = raw_video_id info,
                                            raw_title = raw_title info,
                                            raw_thumbnail_url = raw_thumbnail_url info,
                                            length_seconds = length_seconds info,
                                            formats = mark_format bestaudio (formats info),
                                            raw_url = info_url,
                                            raw_expires = exp\<rparr>)
                             else Inr (Formatted formattedInfo)))))"








subsection \<open>Queue and player modules\<close>

text \<open>
  Modelled from the spec: the queue module (\<open>music:queue\<close>) is not part of the source
  file. Section 4.3: \<open>add\<close> appends, or inserts at the front if \<open>playNow\<close>;
  \<open>length\<close> is the number of pending items; \<open>shift\<close> removes and returns the front
  item and fails with \<open>QueueEmpty\<close> if there is none; \<open>remove\<close> clears the whole
  queue of the session.
\<close>

definition queue_add :: "string \<Rightarrow> media \<Rightarrow> bool \<Rightarrow> state \<Rightarrow> state" where
  "queue_add guildId item playNow s =
     s\<lparr>queues := (queues s)(guildId :=
          (if playNow then item # queues s guildId else queues s guildId @ [item]))\<rparr>"

definition queue_getLength :: "state \<Rightarrow> string \<Rightarrow> nat" where
  "queue_getLength s guildId = length (queues s guildId)"

definition queue_shift :: "string \<Rightarrow> state \<Rightarrow> (error + media) \<times> state" where
  "queue_shift guildId s =
     (case queues s guildId of
        [] \<Rightarrow> (Inl QueueEmpty, s)
      | item # rest \<Rightarrow> (Inr item, s\<lparr>queues := (queues s)(guildId := rest)\<rparr>))"

definition queue_remove :: "string \<Rightarrow> state \<Rightarrow> state" where
  "queue_remove guildId s = s\<lparr>queues := (queues s)(guildId := [])\<rparr>"

text \<open>
  Modelled from the spec: the player module (\<open>music:player\<close>) is not part of the
  source file. Section 6 gives its calls \<open>play(channel, metadata, volume)\<close>,
  \<open>stop(channel, immediate)\<close> and \<open>skip(sessionId, channel)\<close>; by section 4.4 a
  session is Playing while one stream is active. Each call is recorded in \<open>trace\<close>; a
  successful \<open>play\<close> makes the guild's connection playing, a successful \<open>stop\<close>
  ends that; the player does not touch the queue.
\<close>

definition player_call :: "env \<Rightarrow> event \<Rightarrow> (state \<Rightarrow> state) \<Rightarrow> state \<Rightarrow> (error + unit) \<times> state" where
  "player_call e ev effect s =
     (let s1 = s\<lparr>trace := trace s @ [ev]\<rparr>
      in case player_throws e ev of
           Some err \<Rightarrow> (Inl (Thrown err), s1)
         | None \<Rightarrow> (Inr (), effect s1))"

definition set_playing :: "string \<Rightarrow> bool \<Rightarrow> state \<Rightarrow> state" where
  "set_playing guildId b s = s\<lparr>voiceConnections := (voiceConnections s)(guildId \<mapsto> b)\<rparr>"

definition player_play ::
  "env \<Rightarrow> voice_channel \<Rightarrow> media \<Rightarrow> real option \<Rightarrow> state \<Rightarrow> (error + unit) \<times> state" where
  "player_play e channel mediaInfo vol s =
     player_call e (EvPlay channel mediaInfo vol) (set_playing (guild_id (vc_guild channel)) True) s"

definition player_stop :: "env \<Rightarrow> voice_channel \<Rightarrow> bool \<Rightarrow> state \<Rightarrow> (error + unit) \<times> state" where
  "player_stop e channel leave s =
     player_call e (EvStop channel leave) (set_playing (guild_id (vc_guild channel)) False) s"

definition player_skip ::
  "env \<Rightarrow> string \<Rightarrow> voice_channel option \<Rightarrow> state \<Rightarrow> (error + unit) \<times> state" where
  "player_skip e guildId channel s = player_call e (EvSkip guildId channel) (\<lambda>s. s) s"

subsection \<open>The playback coordinator\<close>

definition getPlayingState :: "state \<Rightarrow> voice_channel \<Rightarrow> bool" where
  "getPlayingState s channel =
     (case voiceConnections s (guild_id (vc_guild channel)) of
        None \<Rightarrow> False
      | Some playing \<Rightarrow> playing)"

text \<open>\<open>this.volume.get(guildId) || 2\<close>\<close>

definition current_volume :: "state \<Rightarrow> string \<Rightarrow> real" where
  "current_volume s guildId =
     (case volume s guildId of None \<Rightarrow> 2 | Some v \<Rightarrow> if v = 0 then 2 else v)"

text \<open>
  \<open>play(channel, mediaInfo)\<close>. \<open>bot_alone\<close> is the test of line 167:
  \<open>channel.voiceMembers.size === 1 && channel.voiceMembers.has(this.client.user.id)\<close>.
  A call without metadata passes \<open>Falsy\<close> (the
  parameter is then \<open>undefined\<close>). After the early return for supplied metadata,
  \<open>mediaInfo\<close> is falsy, so line 180 reads \<open>item.url\<close>; hashing an absent url
  throws. The call of \<open>player.stop\<close> before the final \<open>player.play\<close> is not
  awaited: its outcome is dropped.
\<close>

definition bot_alone :: "env \<Rightarrow> voice_channel \<Rightarrow> bool" where
  "bot_alone e channel =
     (length (voiceMembers channel) = 1 \<and> bot_id e \<in> set (voiceMembers channel))"

function play :: "env \<Rightarrow> voice_channel \<Rightarrow> media \<Rightarrow> state \<Rightarrow> (error + unit) \<times> state" where
  "play e channel mediaInfo s =
     (if bot_alone e channel
      then player_stop e channel True s
      else
        let guildId = guild_id (vc_guild channel) in
        if queue_getLength s guildId = 0 then (Inl NoSongs, s)
        else
          (case queue_shift guildId s of
             (Inl err, s1) \<Rightarrow> (Inl err, s1)
           | (Inr item, s1) \<Rightarrow>
              let vol = current_volume s1 guildId in
              if truthy_media mediaInfo then player_play e channel mediaInfo (Some vol) s1
              else
                (case media_url item of
                   Inl err \<Rightarrow> (Inl err, s1)
                 | Inr None \<Rightarrow> (Inl TypeError, s1)
                 | Inr (Some u) \<Rightarrow>
                    (case getInfo e u False of
                       Inl err \<Rightarrow> (Inl err, s1)
                     | Inr resolved \<Rightarrow>
                        if \<not> truthy_media resolved
                        then play e channel Falsy (queue_remove (guild_id (vc_guild channel)) s1)
                        else
                          let s2 = (if getPlayingState s1 channel
                                    then snd (player_stop e channel False s1)
                                    else s1)
                          in player_play e channel resolved (Some vol) s2))))"
  by pat_completeness auto
termination
  by (relation "measure (\<lambda>(e, channel, mediaInfo, s). queue_getLength s (guild_id (vc_guild channel)))")
     (auto simp: queue_getLength_def queue_remove_def)

declare play.simps [simp del]

definition queueSong ::
  "env \<Rightarrow> string \<Rightarrow> voice_channel \<Rightarrow> media \<Rightarrow> state \<Rightarrow> (error + media) \<times> state" where
  "queueSong e guildId voiceChannel mediaInfo s =
     (if \<not> getPlayingState s voiceChannel then
        let s1 = queue_add guildId mediaInfo True s in
        (case media_audiourl mediaInfo of
           Inl err \<Rightarrow> (Inl err, s1)
         | Inr a \<Rightarrow>
            if truthy_str a then
              (case player_play e voiceChannel mediaInfo None s1 of
                 (Inl err, s2) \<Rightarrow> (Inl err, s2)
               | (Inr _, s2) \<Rightarrow> (Inr mediaInfo, s2))
            else
              (case play e voiceChannel Falsy s1 of
                 (Inl err, s2) \<Rightarrow> (Inl err, s2)
               | (Inr _, s2) \<Rightarrow> (Inr mediaInfo, s2)))
      else (Inr mediaInfo, queue_add guildId mediaInfo False s))"

subsection \<open>Admission\<close>

text \<open>
  The argument \<open>url\<close> of \<open>add\<close>: a string, an object (with its \<open>url\<close> property,
  if it has one), \<open>null\<close>, or a value of another type.
\<close>

datatype url_arg = UStr string | UObj "url_arg option" | UNull | UOther

text \<open>
  \<open>str.replace(pattern, replacement)\<close> with a string as pattern: the first occurrence of
  the pattern is replaced.
\<close>

fun replace_first :: "string \<Rightarrow> string \<Rightarrow> string \<Rightarrow> string" where
  "replace_first pat rep [] = (if pat = [] then rep else [])"
| "replace_first pat rep (c # cs) =
     (if take (length pat) (c # cs) = pat then rep @ drop (length pat) (c # cs)
      else c # replace_first pat rep cs)"

text \<open>
  Lines 151 to 153 of \<open>add\<close>: the reference that is handed to \<open>getInfo\<close>.
  \<open>typeof null\<close> is \<open>'object'\<close>, and reading \<open>null.url\<close> throws.
\<close>

definition add_reference :: "url_arg \<Rightarrow> error + string" where
  "add_reference u =
     (case (case u of
              UObj p \<Rightarrow> Inr (case p of None \<Rightarrow> UOther | Some v \<Rightarrow> v)
            | UNull \<Rightarrow> Inl TypeError
            | _ \<Rightarrow> Inr u) of
        Inl err \<Rightarrow> Inl err
      | Inr (UStr str) \<Rightarrow> Inr (replace_first ''/<|>/g'' [] str)
      | Inr _ \<Rightarrow> Inl InvalidURL)"

text \<open>\<open>mediaInfo && mediaInfo.length && mediaInfo.length > 5400\<close>\<close>

definition too_long :: "media \<Rightarrow> bool" where
  "too_long mediaInfo =
     (truthy_media mediaInfo \<and> truthy_num (media_length mediaInfo)
      \<and> to_number (media_length mediaInfo) > 5400)"

definition add ::
  "env \<Rightarrow> string \<Rightarrow> voice_channel \<Rightarrow> url_arg \<Rightarrow> state \<Rightarrow> (error + media) \<times> state" where
  "add e guildId voiceChannel u s =
     (case add_reference u of
        Inl err \<Rightarrow> (Inl err, s)
      | Inr r \<Rightarrow>
         (case getInfo e r False of
            Inl err \<Rightarrow> (Inl err, s)
          | Inr mediaInfo \<Rightarrow>
             if too_long mediaInfo then (Inl TooLong, s)
             else queueSong e guildId voiceChannel mediaInfo s))"

subsection \<open>Skip votes\<close>

record message =
  msg_guild_id :: string
  msg_author_id :: string
  msg_voice_channelID :: string

datatype skip_result = Resolved | AlreadyVoted | VoteSuccess | Skipped

text \<open>
  \<open>votes.get(msg.guild.id) || []\<close> on an existing map: the stored number 0 reads as no
  votes.
\<close>

definition current_votes :: "(string \<rightharpoonup> vote_val) \<Rightarrow> string \<Rightarrow> string list" where
  "current_votes vm guildId =
     (case vm guildId of None \<Rightarrow> [] | Some VZero \<Rightarrow> [] | Some (VArr vs) \<Rightarrow> vs)"

definition do_skip :: "env \<Rightarrow> message \<Rightarrow> voice_channel option \<Rightarrow> state \<Rightarrow> (error + skip_result) \<times> state" where
  "do_skip e msg channel s =
     (case player_skip e (msg_guild_id msg) channel s of
        (Inl err, s1) \<Rightarrow> (Inl err, s1)
      | (Inr _, s1) \<Rightarrow> (Inr Skipped, s1))"

text \<open>
  \<open>skip(msg, force)\<close>. Reading \<open>channel.members\<close> of an unknown channel throws, and
  so does \<open>this.votes.get\<close> (line 207) when \<open>this.votes\<close> is \<open>undefined\<close>.
\<close>

definition skip :: "env \<Rightarrow> message \<Rightarrow> bool \<Rightarrow> state \<Rightarrow> (error + skip_result) \<times> state" where
  "skip e msg force s =
     (let channel = getChannel e (msg_voice_channelID msg) in
      if queue_getLength s (msg_guild_id msg) \<le> 1 then (Inr Resolved, s)
      else if force then do_skip e msg channel s
      else
        (case channel of
           None \<Rightarrow> (Inl TypeError, s)
         | Some ch \<Rightarrow>
            if members ch > 2 then
              (case votes s of
                 None \<Rightarrow> (Inl TypeError, s)
               | Some vm \<Rightarrow>
                  let vote = current_votes vm (msg_guild_id msg) in
                  if msg_author_id msg \<in> set vote then (Inr AlreadyVoted, s)
                  else
                    let vote1 = vote @ [msg_author_id msg] in
                    if real (length vote1) / real (members ch) < 0.5
                    then (Inr VoteSuccess,
                          s\<lparr>votes := Some (vm(msg_guild_id msg \<mapsto> VArr vote1))\<rparr>)
                    else do_skip e msg channel
                           (s\<lparr>votes := Some (vm(msg_guild_id msg \<mapsto> VZero))\<rparr>))
            else do_skip e msg channel s))"

subsection \<open>Best-audio selection in the specification's words\<close>

text \<open>
  The family priority: the streams with itag 249, 250 or 251 if there are any, else
  those with itag 141, 140 or 139 if there are any, else the streams of container
  \<open>mp4\<close>; and what it means to be a best stream of a family: of highest audio bitrate
  among the streams with positive audio bitrate and no video bitrate if there is such a
  stream, else any stream with positive audio bitrate.
\<close>

definition chosen_family :: "format list \<Rightarrow> string \<times> format list" where
  "chosen_family fs =
     (let webm = filter (itag_in [249, 250, 251]) fs;
          mp4 = filter (itag_in [141, 140, 139]) fs;
          other = filter (\<lambda>f. container f = ''mp4'') fs
      in if webm \<noteq> [] then (''webm'', webm)
         else if mp4 \<noteq> [] then (''mp4'', mp4)
         else (''mp4'', other))"

definition best_in :: "format list \<Rightarrow> format \<Rightarrow> bool" where
  "best_in fam c =
     (c \<in> set fam \<and>
      (if \<exists>f\<in>set fam. audio_only f
       then audio_only c
            \<and> (\<forall>f\<in>set fam. audio_only f \<longrightarrow>
                   to_number (audioBitrate f) \<le> to_number (audioBitrate c))
       else has_audio c))"

subsection \<open>Example values\<close>

text \<open>
  The module instance as the constructor leaves it (\<open>connections\<close> and \<open>volume\<close>
  empty, no \<open>votes\<close> property), with empty queues and no voice connection.
\<close>

definition initial_state :: state where
  "initial_state =
     \<lparr>connections = Map.empty, volume = Map.empty, votes = None,
      queues = (\<lambda>_. []), voiceConnections = Map.empty, trace = []\<rparr>"

definition ex_guild :: guild where
  "ex_guild = \<lparr>guild_id = ''g1'', guild_name = ''Guild''\<rparr>"

definition ex_text_channel :: text_channel where
  "ex_text_channel = \<lparr>tc_id = ''t1'', tc_guild = Some ex_guild\<rparr>"

definition ex_voice_channel :: voice_channel where
  "ex_voice_channel = \<lparr>vc_guild = ex_guild, voiceMembers = [''bot'', ''u1'', ''u2''], members = 5\<rparr>"

definition ex_format_250 :: format where
  "ex_format_250 =
     \<lparr>itag = ''250'', container = ''webm'', audioBitrate = Some 70, bitrate = None,
      fmt_url = Some ''https://r1.example/videoplayback?itag=250&expire=1700021600&sig=ab'',
      fmt_format = None\<rparr>"

definition ex_format_140 :: format where
  "ex_format_140 =
     \<lparr>itag = ''140'', container = ''mp4'', audioBitrate = Some 128, bitrate = Some ''1.5'',
      fmt_url = Some ''https://r1.example/videoplayback?itag=140&expire=1700021600&sig=cd'',
      fmt_format = None\<rparr>"

definition ex_ytdl_info :: ytdl_info where
  "ex_ytdl_info =
     \<lparr>raw_video_id = Some ''abc'', raw_title = Some ''Song'', raw_thumbnail_url = None,
      length_seconds = ''5400'', formats = [ex_format_250, ex_format_140]\<rparr>"

text \<open>
  Collaborators for the examples: an empty cache, a resolver backend that knows one
  video, a clock at 1700000000000 ms, a parser that accepts only \<open>null\<close>, and a
  player that never fails.
\<close>

definition ex_env :: env where
  "ex_env =
     \<lparr>redis_get = (\<lambda>_. CacheNil),
      sha256_hex = (\<lambda>r. r),
      json_parse = (\<lambda>v. if v = ''null'' then Some Falsy else None),
      ytdl_getInfo = (\<lambda>_. Inr (Some ex_ytdl_info)),
      date_now = 1700000000000,
      hasPermissions = (\<lambda>_. True),
      joinVoiceChannel = (\<lambda>_. None),
      bot_id = ''bot'',
      getChannel = (\<lambda>_. Some ex_voice_channel),
      player_throws = (\<lambda>_. None)\<rparr>"

text \<open>
  What \<open>getInfo\<close> returns for the example backend, and the example collaborators with
  another duration string.
\<close>

definition ex_media :: formatted_info where
  "ex_media =
     \<lparr>video_id = Some ''abc'', title = Some ''Song'', thumbnail_url = None,
      url = Some ''https://www.youtube.com/watch?v=abc'',
      audiourl = Some ''https://r1.example/videoplayback?itag=250&expire=1700021600&sig=ab'',
      audioformat = Some ''webm'', audiotype = Some ''250'',
      expires = Some 1698299979000, length_secs = Some 5400\<rparr>"

definition ex_env_length :: "string \<Rightarrow> env" where
  "ex_env_length l = ex_env\<lparr>ytdl_getInfo := (\<lambda>_. Inr (Some (ex_ytdl_info\<lparr>length_seconds := l\<rparr>)))\<rparr>"


text \<open>A session that is playing, with one resolved item in its queue.\<close>

definition ex_playing_state :: state where
  "ex_playing_state =
     initial_state\<lparr>queues := (\<lambda>_. [])(''g1'' := [Formatted ex_media]),
                   voiceConnections := [''g1'' \<mapsto> True]\<rparr>"

text \<open>
  The instance as constructed with two queued items; the same with a votes map holding
  the given votes, as if something had assigned one; and a skip request of the given
  author, in a channel of five members.
\<close>

definition ex_queued_state :: state where
  "ex_queued_state =
     initial_state\<lparr>queues := (\<lambda>_. [])(''g1'' := [Formatted ex_media, Formatted ex_media])\<rparr>"

definition ex_vote_state :: "string list \<Rightarrow> state" where
  "ex_vote_state vs = ex_queued_state\<lparr>votes := Some [''g1'' \<mapsto> VArr vs]\<rparr>"

definition ex_message :: "string \<Rightarrow> message" where
  "ex_message author = \<lparr>msg_guild_id = ''g1'', msg_author_id = author, msg_voice_channelID = ''vc1''\<rparr>"

section \<open>Properties\<close>

subsection \<open>Evaluation of the examples\<close>

lemmas parseInt_eval =
  parseInt_def parse_unsigned_def parse_digits_def digits_value_def is_digit_def
  digit_val_def is_space_def

lemmas js_value_eval = truthy_str_def truthy_num_def to_number_def

lemmas example_defs =
  initial_state_def ex_guild_def ex_text_channel_def ex_voice_channel_def
  ex_format_250_def ex_format_140_def ex_ytdl_info_def ex_env_def ex_env_length_def

lemma getBestAudio_ex:
  "getBestAudio [ex_format_250, ex_format_140] = Inr (Some (ex_format_250\<lparr>fmt_format := Some ''webm''\<rparr>))"
  by (simp add: getBestAudio_def getFormatUrl_def sort_formats_def itag_in_def
        ex_format_250_def ex_format_140_def parseInt_eval audio_only_def has_audio_def
        js_value_eval)

lemma info_expires_ex:
  "info_expires (ex_format_250\<lparr>fmt_format := Some ''webm''\<rparr>) = Some 1700020700"
  by (simp add: info_expires_def ex_format_250_def truthy_str_def parseInt_eval)

lemma getInfo_ex_length:
  "getInfo (ex_env_length l) r False = Inr (Formatted (ex_media\<lparr>length_secs := parseInt l\<rparr>))"
  by (simp add: getInfo_def ex_env_length_def ex_env_def ex_ytdl_info_def getBestAudio_ex info_expires_ex
        js_value_eval ex_media_def)
     (simp add: ex_format_250_def)

lemma getInfo_ex: "getInfo ex_env r False = Inr (Formatted ex_media)"
  by (simp add: getInfo_def ex_env_def ex_ytdl_info_def getBestAudio_ex info_expires_ex
        js_value_eval ex_media_def parseInt_eval)
     (simp add: ex_format_250_def)

subsection \<open>Best-audio selection\<close>

lemma find_sorted_least:
  "sorted (map k ys) \<Longrightarrow> find P ys = Some c \<Longrightarrow> \<forall>y\<in>set ys. P y \<longrightarrow> k c \<le> k y"
  by (induction ys) (auto split: if_splits)

lemma find_Some_member: "find P ys = Some c \<Longrightarrow> c \<in> set ys \<and> P c"
  by (induction ys) (auto split: if_splits)

lemma find_sort_formats:
  assumes "find P (sort_formats fs) = Some c"
  shows "c \<in> set fs \<and> P c
       \<and> (\<forall>f\<in>set fs. P f \<longrightarrow> to_number (audioBitrate f) \<le> to_number (audioBitrate c))"
proof -
  have "sorted (map (\<lambda>f. - to_number (audioBitrate f)) (sort_formats fs))"
    by (simp add: sort_formats_def)
  from find_sorted_least [OF this assms]
  have "\<forall>f\<in>set fs. P f \<longrightarrow> to_number (audioBitrate f) \<le> to_number (audioBitrate c)"
    by (simp add: sort_formats_def)
  moreover from find_Some_member [OF assms] have "c \<in> set fs \<and> P c"
    by (simp add: sort_formats_def)
  ultimately show ?thesis by simp
qed

lemma find_sort_formats_None:
  "find P (sort_formats fs) = None \<longleftrightarrow> (\<forall>f\<in>set fs. \<not> P f)"
  by (auto simp: find_None_iff sort_formats_def)

lemma audio_only_has_audio: "audio_only f \<Longrightarrow> has_audio f"
  by (simp add: audio_only_def has_audio_def)

lemma getFormatUrl_spec:
  "(case getFormatUrl tag fam of
      Inl err \<Rightarrow> err = TypeError \<and> (\<forall>f\<in>set fam. \<not> has_audio f)
    | Inr None \<Rightarrow> (\<exists>c. best_in fam c \<and> \<not> truthy_str (fmt_url c))
    | Inr (Some b) \<Rightarrow>
        (\<exists>c. best_in fam c \<and> truthy_str (fmt_url c) \<and> b = c\<lparr>fmt_format := Some tag\<rparr>))"
proof (cases "find audio_only (sort_formats fam)")
  case (Some c)
  from find_sort_formats [OF Some] have "best_in fam c"
    by (auto simp: best_in_def)
  with Some show ?thesis
    by (auto simp: getFormatUrl_def)
next
  case None
  then have none: "\<forall>f\<in>set fam. \<not> audio_only f"
    by (simp add: find_sort_formats_None)
  show ?thesis
  proof (cases "find has_audio (sort_formats fam)")
    case None2: None
    then have "\<forall>f\<in>set fam. \<not> has_audio f"
      by (simp add: find_sort_formats_None)
    with None None2 show ?thesis
      by (simp add: getFormatUrl_def)
  next
    case (Some c)
    from find_sort_formats [OF Some] none have "best_in fam c"
      by (auto simp: best_in_def)
    with None Some show ?thesis
      by (auto simp: getFormatUrl_def)
  qed
qed

text \<open>
  Claim C3. \<open>getBestAudio\<close> works on the family that the priority order chooses.
  If it returns a stream, that is a best stream of the family, carrying a url and tagged
  with the family; it returns nothing only if the family is empty or its best stream has
  no url; it throws only if no stream of the family has a positive audio bitrate.
\<close>

theorem getBestAudio_selection:
  "(case chosen_family fs of (tag, fam) \<Rightarrow>
      (case getBestAudio fs of
         Inl err \<Rightarrow> err = TypeError \<and> fam \<noteq> [] \<and> (\<forall>f\<in>set fam. \<not> has_audio f)
       | Inr None \<Rightarrow> fam = [] \<or> (\<exists>c. best_in fam c \<and> \<not> truthy_str (fmt_url c))
       | Inr (Some b) \<Rightarrow>
           (\<exists>c. best_in fam c \<and> truthy_str (fmt_url c) \<and> b = c\<lparr>fmt_format := Some tag\<rparr>)))"
proof -
  let ?webm = "filter (itag_in [249, 250, 251]) fs"
  let ?mp4 = "filter (itag_in [141, 140, 139]) fs"
  let ?other = "filter (\<lambda>f. container f = ''mp4'') fs"
  consider (webm) "?webm \<noteq> []" | (mp4) "?webm = []" "?mp4 \<noteq> []"
    | (other) "?webm = []" "?mp4 = []" "?other \<noteq> []"
    | (none) "?webm = []" "?mp4 = []" "?other = []"
    by blast
  then show ?thesis
  proof cases
    case webm
    then have "chosen_family fs = (''webm'', ?webm)" "getBestAudio fs = getFormatUrl ''webm'' ?webm"
      by (simp_all add: chosen_family_def getBestAudio_def)
    with webm getFormatUrl_spec [where tag = "''webm''" and fam = ?webm] show ?thesis
      by (simp split: sum.splits option.splits)
  next
    case mp4
    then have "chosen_family fs = (''mp4'', ?mp4)" "getBestAudio fs = getFormatUrl ''mp4'' ?mp4"
      by (simp_all add: chosen_family_def getBestAudio_def)
    with mp4 getFormatUrl_spec [where tag = "''mp4''" and fam = ?mp4] show ?thesis
      by (simp split: sum.splits option.splits)
  next
    case other
    then have "chosen_family fs = (''mp4'', ?other)" "getBestAudio fs = getFormatUrl ''mp4'' ?other"
      by (simp_all add: chosen_family_def getBestAudio_def)
    with other getFormatUrl_spec [where tag = "''mp4''" and fam = ?other] show ?thesis
      by (simp split: sum.splits option.splits)
  next
    case none
    then have "chosen_family fs = (''mp4'', [])" "getBestAudio fs = Inr None"
      by (simp_all add: chosen_family_def getBestAudio_def)
    then show ?thesis by simp
  qed
qed

lemma itag_ex: "itag_in [249, 250, 251] ex_format_250" "\<not> itag_in [249, 250, 251] ex_format_140"
  by (simp_all add: itag_in_def ex_format_250_def ex_format_140_def parseInt_eval)

text \<open>
  An audio-only stream of itag 250 with bitrate 70 is chosen over a mixed stream of itag
  140 with bitrate 128.
\<close>

theorem getBestAudio_selection_witness:
  "chosen_family [ex_format_250, ex_format_140] = (''webm'', [ex_format_250])
   \<and> best_in [ex_format_250] ex_format_250
   \<and> getBestAudio [ex_format_250, ex_format_140]
       = Inr (Some (ex_format_250\<lparr>fmt_format := Some ''webm''\<rparr>))"
proof -
  have fam: "chosen_family [ex_format_250, ex_format_140] = (''webm'', [ex_format_250])"
    by (simp add: chosen_family_def itag_ex)
  have url: "truthy_str (fmt_url ex_format_250)"
    by (simp add: ex_format_250_def truthy_str_def)
  have audio: "audio_only ex_format_250" "has_audio ex_format_250"
    by (simp_all add: audio_only_def has_audio_def ex_format_250_def js_value_eval)
  from getBestAudio_selection [of "[ex_format_250, ex_format_140]"]
  have sel: "case getBestAudio [ex_format_250, ex_format_140] of
               Inl err \<Rightarrow> \<not> has_audio ex_format_250
             | Inr None \<Rightarrow> \<not> truthy_str (fmt_url ex_format_250)
             | Inr (Some b) \<Rightarrow> b = ex_format_250\<lparr>fmt_format := Some ''webm''\<rparr>"
    by (auto simp: fam best_in_def split: sum.splits option.splits)
  have "best_in [ex_format_250] ex_format_250"
    by (simp add: best_in_def audio)
  with sel audio url fam show ?thesis
    by (simp split: sum.splits option.splits)
qed

subsection \<open>Unfolding play\<close>

text \<open>
  \<open>play\<close> calls itself only after clearing the queue, so the inner call ends at the
  test of the queue length: the function equals a body without recursion.
\<close>

lemma play_no_songs:
  "\<not> bot_alone e ch \<Longrightarrow> queues s (guild_id (vc_guild ch)) = [] \<Longrightarrow> play e ch m s = (Inl NoSongs, s)"
  by (subst play.simps) (simp add: queue_getLength_def)

lemma play_retry:
  "\<not> bot_alone e ch \<Longrightarrow>
   play e ch m (queue_remove (guild_id (vc_guild ch)) s) = (Inl NoSongs, queue_remove (guild_id (vc_guild ch)) s)"
  by (rule play_no_songs) (simp_all add: queue_remove_def)

lemma play_bot_alone: "bot_alone e ch \<Longrightarrow> play e ch m s = player_stop e ch True s"
  by (subst play.simps) simp

lemma play_nonempty:
  assumes "\<not> bot_alone e ch" and "queues s (guild_id (vc_guild ch)) = item # rest"
  shows "play e ch m s =
     (let guildId = guild_id (vc_guild ch);
          s1 = s\<lparr>queues := (queues s)(guildId := rest)\<rparr>;
          vol = current_volume s1 guildId in
      if truthy_media m then player_play e ch m (Some vol) s1
      else
        (case media_url item of
           Inl err \<Rightarrow> (Inl err, s1)
         | Inr None \<Rightarrow> (Inl TypeError, s1)
         | Inr (Some u) \<Rightarrow>
            (case getInfo e u False of
               Inl err \<Rightarrow> (Inl err, s1)
             | Inr resolved \<Rightarrow>
                if \<not> truthy_media resolved
                then (Inl NoSongs, queue_remove guildId s1)
                else
                  let s2 = (if getPlayingState s1 ch
                            then snd (player_stop e ch False s1)
                            else s1)
                  in player_play e ch resolved (Some vol) s2)))"
  using assms
  by (subst play.simps)
     (simp add: queue_getLength_def queue_shift_def Let_def play_retry
           split: sum.splits option.splits)

lemma getFormatUrl_error: "getFormatUrl t fs = Inl err \<Longrightarrow> err = TypeError"
  by (auto simp: getFormatUrl_def Let_def split: option.splits if_splits)

lemma getBestAudio_error: "getBestAudio fs = Inl err \<Longrightarrow> err = TypeError"
  by (auto simp: getBestAudio_def Let_def dest: getFormatUrl_error split: if_splits)

lemma getInfo_error:
  "getInfo e r fetchAll = Inl err \<Longrightarrow>
     err = SyntaxError \<or> err = NoVideoFound \<or> err = TypeError \<or> (\<exists>x. err = Thrown x)"
  by (auto simp: getInfo_def Let_def dest: getBestAudio_error
           split: cache_reply.splits option.splits sum.splits if_splits)

lemma player_call_error:
  "player_call e ev f s = (Inl err, s') \<Longrightarrow> \<exists>x. err = Thrown x"
  by (auto simp: player_call_def Let_def split: option.splits)

lemma media_url_error: "media_url item = Inl err \<Longrightarrow> err = TypeError"
  by (cases item) auto

lemma media_audiourl_error: "media_audiourl item = Inl err \<Longrightarrow> err = TypeError"
  by (cases item) auto

lemma play_error:
  assumes "play e ch m s = (Inl err, s')"
  shows "err \<noteq> TooLong \<and> err \<noteq> InvalidURL"
proof (cases "bot_alone e ch")
  case True
  with assms show ?thesis
    by (auto simp: play_bot_alone player_stop_def dest: player_call_error)
next
  case False
  show ?thesis
  proof (cases "queues s (guild_id (vc_guild ch))")
    case Nil
    with False assms show ?thesis by (simp add: play_no_songs)
  next
    case (Cons item rest)
    from assms show ?thesis
      unfolding play_nonempty [OF False Cons]
      by (auto simp: Let_def player_play_def
               dest!: player_call_error getInfo_error media_url_error
               split: if_splits sum.splits option.splits)
  qed
qed

lemma queueSong_error:
  assumes "queueSong e g ch m s = (Inl err, s')"
  shows "err \<noteq> TooLong \<and> err \<noteq> InvalidURL"
  using assms
  by (auto simp: queueSong_def Let_def player_play_def
           dest!: player_call_error play_error media_audiourl_error
           split: if_splits sum.splits prod.splits)

subsection \<open>Channel binding and connect\<close>

lemma bindChannel_idem: "bindChannel g c (bindChannel g c s) = bindChannel g c s"
  by (simp add: bindChannel_def)

lemma getBoundChannel_unbind: "getBoundChannel (unbindChannel g s) g = None"
  by (simp add: getBoundChannel_def unbindChannel_def truthy_str_def)

text \<open>
  Claim C10. \<open>connect\<close> binds the guild to the supplied text channel before it checks
  the permissions: whenever it fails with \<open>noPerms\<close> or with \<open>error\<close>, the guild is
  bound to the supplied text channel afterwards, and \<open>getBoundChannel\<close> returns that
  channel (an id is never the empty string, which would read as \<open>null\<close>). Nothing
  undoes the binding on failure.
\<close>

theorem connect_binds_before_check:
  assumes "connect e voiceID textChannel s = (Inl err, s')"
      and "err = NoPerms \<or> err = ConnError"
  shows "\<exists>tc g. textChannel = Some tc \<and> tc_guild tc = Some g
           \<and> connections s' (guild_id g) = Some (tc_id tc)
           \<and> (tc_id tc \<noteq> [] \<longrightarrow> getBoundChannel s' (guild_id g) = Some (tc_id tc))"
  using assms
  by (auto simp: connect_def bindChannel_def getBoundChannel_def truthy_str_def Let_def
           split: option.splits if_splits prod.splits)

text \<open>
  An unbound guild, a bot without the voice permissions: \<open>connect\<close> fails with
  \<open>noPerms\<close> and leaves the guild bound.
\<close>

theorem connect_binds_before_check_witness:
  "connect (ex_env\<lparr>hasPermissions := (\<lambda>_. False)\<rparr>) (Some ''v1'') (Some ex_text_channel)
      initial_state
     = (Inl NoPerms, bindChannel ''g1'' ''t1'' initial_state)
   \<and> getBoundChannel initial_state ''g1'' = None
   \<and> getBoundChannel (bindChannel ''g1'' ''t1'' initial_state) ''g1'' = Some ''t1''"
proof -
  have run: "connect (ex_env\<lparr>hasPermissions := (\<lambda>_. False)\<rparr>) (Some ''v1'')
               (Some ex_text_channel) initial_state
             = (Inl NoPerms, bindChannel ''g1'' ''t1'' initial_state)"
    by (simp add: connect_def example_defs truthy_str_def)
  from connect_binds_before_check [OF run]
  have "getBoundChannel (bindChannel ''g1'' ''t1'' initial_state) ''g1'' = Some ''t1''"
    by (simp add: example_defs)
  moreover have "getBoundChannel initial_state ''g1'' = None"
    by (simp add: getBoundChannel_def initial_state_def truthy_str_def)
  ultimately show ?thesis using run by simp
qed

subsection \<open>The expiry in getInfo\<close>
















subsection \<open>The cache in getInfo\<close>

text \<open>A failed cache read and an absent entry lead to the same, live resolution.\<close>

lemma getInfo_read_failure_is_miss:
  "getInfo (e\<lparr>redis_get := (\<lambda>_. ReadFailed)\<rparr>) r fetchAll
     = getInfo (e\<lparr>redis_get := (\<lambda>_. CacheNil)\<rparr>) r fetchAll"
  by (simp add: getInfo_def cache_key_def Let_def split: sum.splits option.splits)

text \<open>
  Claim C2. The claim says that a cache entry that cannot be parsed is treated as a miss.
  In the code only the read itself is guarded (\<open>.catch(() => false)\<close>);
  \<open>JSON.parse\<close> runs outside any \<open>try\<close>, so for a non-empty entry that the parser
  rejects the call is rejected with the parser's error and no live resolution happens.
\<close>

theorem getInfo_corrupt_entry_rejects:
  assumes "redis_get e (cache_key e r) = CacheValue v" and "v \<noteq> []"
      and "json_parse e v = None"
  shows "getInfo e r fetchAll = Inl SyntaxError"
  using assms by (simp add: getInfo_def)

theorem getInfo_corrupt_entry_rejects_witness:
  "getInfo (ex_env\<lparr>redis_get := (\<lambda>_. CacheValue ''{'')\<rparr>) ''https://youtu.be/abc'' False
     = Inl SyntaxError"
  using getInfo_corrupt_entry_rejects
    [of "ex_env\<lparr>redis_get := (\<lambda>_. CacheValue ''{'')\<rparr>" "''https://youtu.be/abc''" "''{''" False]
  by (simp add: ex_env_def)

subsection \<open>Admission\<close>

lemma add_reference_null: "add_reference UNull = Inl TypeError"
  by (simp add: add_reference_def)

lemma add_reference_invalid:
  "add_reference UOther = Inl InvalidURL"
  "add_reference (UObj None) = Inl InvalidURL"
  "add_reference (UObj (Some UOther)) = Inl InvalidURL"
  by (simp_all add: add_reference_def)

text \<open>
  Claim C7. The claim says that \<open><\<close> and \<open>>\<close> are stripped from the reference. The
  code calls \<open>url.replace('/<|>/g', '')\<close> with a string, not a regular expression, as
  pattern: only a literal occurrence of the seven characters \<open>/<|>/g\<close> would be
  removed, and a reference in angle brackets reaches \<open>getInfo\<close> unchanged.
\<close>

theorem add_reference_keeps_brackets:
  "add_reference (UStr ''<https://youtu.be/abc>'') = Inr ''<https://youtu.be/abc>''"
  by (simp add: add_reference_def)

lemma too_long_iff: "too_long m \<longleftrightarrow> (\<exists>n. media_length m = Some n \<and> 5400 < n)"
  by (cases m) (auto simp: too_long_def truthy_num_def to_number_def split: option.splits)

text \<open>
  Claim C6. Once the reference has resolved to \<open>mediaInfo\<close>, \<open>add\<close> is rejected
  with \<open>tooLong\<close> exactly when the item's length exceeds 5400 (no later step produces
  that error), and every other item is handed to \<open>queueSong\<close>.
\<close>

theorem add_duration_limit:
  assumes "add_reference u = Inr r" and "getInfo e r False = Inr m"
  shows "(fst (add e g ch u s) = Inl TooLong \<longleftrightarrow> (\<exists>n. media_length m = Some n \<and> 5400 < n))
       \<and> (\<not> (\<exists>n. media_length m = Some n \<and> 5400 < n) \<longrightarrow> add e g ch u s = queueSong e g ch m s)"
proof (cases "too_long m")
  case True
  with assms show ?thesis by (simp add: add_def too_long_iff)
next
  case False
  with assms have eq: "add e g ch u s = queueSong e g ch m s" by (simp add: add_def)
  have "fst (queueSong e g ch m s) \<noteq> Inl TooLong"
    using queueSong_error [of e g ch m s TooLong "snd (queueSong e g ch m s)"]
    by (cases "queueSong e g ch m s") auto
  with eq False show ?thesis by (simp add: too_long_iff)
qed


text \<open>Length 5401 is rejected; length 5400 goes on to \<open>queueSong\<close>.\<close>

theorem add_duration_limit_witness:
  "fst (add (ex_env_length ''5401'') ''g1'' ex_voice_channel (UStr ''https://youtu.be/abc'') initial_state)
     = Inl TooLong
   \<and> add (ex_env_length ''5400'') ''g1'' ex_voice_channel (UStr ''https://youtu.be/abc'') initial_state
     = queueSong (ex_env_length ''5400'') ''g1'' ex_voice_channel (Formatted ex_media) initial_state"
proof -
  have ref: "add_reference (UStr ''https://youtu.be/abc'') = Inr ''https://youtu.be/abc''"
    by (simp add: add_reference_def)
  have long: "parseInt ''5401'' = Some 5401" and ok: "parseInt ''5400'' = Some 5400"
    by (simp_all add: parseInt_eval)
  show ?thesis
    using add_duration_limit [OF ref getInfo_ex_length, of "''5401''" "''g1''" ex_voice_channel initial_state]
          add_duration_limit [OF ref getInfo_ex_length, of "''5400''" "''g1''" ex_voice_channel initial_state]
    by (simp add: long ok ex_media_def)
qed


subsection \<open>The play transition\<close>

lemma queue_remove_shifted:
  "queue_remove g (s\<lparr>queues := (queues s)(g := rest)\<rparr>) = queue_remove g s"
  by (simp add: queue_remove_def)

text \<open>
  Claim C9. When the popped item resolves to nothing usable, \<open>play\<close> clears the
  queue and calls itself without metadata; that one inner call finds the queue empty and
  is rejected with \<open>noSongs\<close>, so the retry happens at most once. (\<open>play\<close> is
  defined by recursion with a termination proof: the queue length decreases.)
\<close>

theorem play_dead_item_retry:
  assumes "\<not> bot_alone e ch"
      and "queues s (guild_id (vc_guild ch)) = item # rest"
      and "\<not> truthy_media m"
      and "media_url item = Inr (Some u)"
      and "getInfo e u False = Inr resolved"
      and "\<not> truthy_media resolved"
  shows "play e ch m s = play e ch Falsy (queue_remove (guild_id (vc_guild ch)) s)
       \<and> play e ch Falsy (queue_remove (guild_id (vc_guild ch)) s)
           = (Inl NoSongs, queue_remove (guild_id (vc_guild ch)) s)"
  using assms
  by (simp add: play_nonempty [OF assms(1,2)] play_retry queue_remove_shifted)

lemma ex_not_alone: "\<not> bot_alone e ex_voice_channel"
  by (simp add: bot_alone_def ex_voice_channel_def)

text \<open>A cache entry \<open>null\<close> for the queued item: one retry, then \<open>noSongs\<close>.\<close>

theorem play_dead_item_retry_witness:
  "play (ex_env\<lparr>redis_get := (\<lambda>_. CacheValue ''null'')\<rparr>) ex_voice_channel Falsy ex_playing_state
     = (Inl NoSongs, queue_remove ''g1'' ex_playing_state)
   \<and> queue_getLength ex_playing_state ''g1'' = 1
   \<and> queue_getLength (queue_remove ''g1'' ex_playing_state) ''g1'' = 0"
proof -
  let ?e = "ex_env\<lparr>redis_get := (\<lambda>_. CacheValue ''null'')\<rparr>"
  have g: "guild_id (vc_guild ex_voice_channel) = ''g1''"
    by (simp add: example_defs)
  have q: "queues ex_playing_state (guild_id (vc_guild ex_voice_channel)) = [Formatted ex_media]"
    by (simp add: ex_playing_state_def example_defs)
  have u: "media_url (Formatted ex_media) = Inr (Some ''https://www.youtube.com/watch?v=abc'')"
    by (simp add: ex_media_def)
  have dead: "getInfo ?e ''https://www.youtube.com/watch?v=abc'' False = Inr Falsy"
    by (simp add: getInfo_def ex_env_def)
  from play_dead_item_retry [OF ex_not_alone q _ u dead, of Falsy]
  show ?thesis
    by (simp add: g queue_getLength_def queue_remove_def ex_playing_state_def)
qed

text \<open>
  Claim C4, as stated, fails on the path with supplied metadata: there \<open>play\<close> returns
  \<open>player.play(channel, mediaInfo, volume)\<close> at once (lines 176 to 178), without
  looking at the playing state. In a playing session, the only player call is the play.
\<close>

theorem play_with_metadata_counterexample:
  "getPlayingState ex_playing_state ex_voice_channel
   \<and> trace ex_playing_state = []
   \<and> trace (snd (play ex_env ex_voice_channel (Formatted ex_media) ex_playing_state))
       = [EvPlay ex_voice_channel (Formatted ex_media) (Some 2)]"
proof -
  have q: "queues ex_playing_state (guild_id (vc_guild ex_voice_channel)) = [Formatted ex_media]"
    by (simp add: ex_playing_state_def example_defs)
  show ?thesis
    unfolding play_nonempty [OF ex_not_alone q]
    by (simp add: getPlayingState_def ex_playing_state_def example_defs player_play_def
          player_call_def current_volume_def set_playing_def)
qed

lemma trace_player_call:
  "trace (snd (player_call e ev (set_playing g b) s)) = trace s @ [ev]"
  by (simp add: player_call_def set_playing_def Let_def split: option.splits)

text \<open>
  Claim C4, amended. On every path through \<open>play\<close> without supplied metadata, in a
  session that is playing: a play is issued only directly after a stop for the same
  channel. The player calls of the transition are none, a lone stop (the bot is alone), or
  a stop followed by the play.
\<close>

theorem play_stops_before_play:
  assumes "getPlayingState s ch" and "\<not> truthy_media m"
  shows "trace (snd (play e ch m s)) = trace s
       \<or> trace (snd (play e ch m s)) = trace s @ [EvStop ch True]
       \<or> (\<exists>r v. trace (snd (play e ch m s)) = trace s @ [EvStop ch False, EvPlay ch r v])"
proof (cases "bot_alone e ch")
  case True
  then show ?thesis
    by (simp add: play_bot_alone player_stop_def trace_player_call)
next
  case False
  show ?thesis
  proof (cases "queues s (guild_id (vc_guild ch))")
    case Nil
    with False show ?thesis by (simp add: play_no_songs)
  next
    case (Cons item rest)
    have playing: "getPlayingState (s\<lparr>queues := (queues s)(guild_id (vc_guild ch) := rest)\<rparr>) ch"
      using assms(1) by (simp add: getPlayingState_def)
    show ?thesis
      unfolding play_nonempty [OF False Cons]
      using assms(2) playing
      by (simp add: Let_def player_play_def player_stop_def trace_player_call queue_remove_def
            split: sum.splits option.splits)
  qed
qed

theorem play_stops_before_play_witness:
  "getPlayingState ex_playing_state ex_voice_channel
   \<and> trace (snd (play ex_env ex_voice_channel Falsy ex_playing_state))
       = [EvStop ex_voice_channel False, EvPlay ex_voice_channel (Formatted ex_media) (Some 2)]"
proof -
  have q: "queues ex_playing_state (guild_id (vc_guild ex_voice_channel)) = [Formatted ex_media]"
    by (simp add: ex_playing_state_def example_defs)
  have p: "getPlayingState ex_playing_state ex_voice_channel"
    by (simp add: getPlayingState_def ex_playing_state_def example_defs)
  have t: "trace (snd (play ex_env ex_voice_channel Falsy ex_playing_state))
       = [EvStop ex_voice_channel False, EvPlay ex_voice_channel (Formatted ex_media) (Some 2)]"
    unfolding play_nonempty [OF ex_not_alone q]
    by (simp add: ex_media_def getInfo_ex [unfolded ex_media_def])
       (simp add: getPlayingState_def ex_playing_state_def example_defs player_play_def player_stop_def
          player_call_def current_volume_def set_playing_def)
  from play_stops_before_play [OF p, of Falsy ex_env] t p show ?thesis by simp
qed


subsection \<open>Adding to an idle or a playing session\<close>





subsection \<open>Skip votes\<close>

lemma trace_player_skip:
  "trace (snd (player_skip e g c s)) = trace s @ [EvSkip g c]"
  by (simp add: player_skip_def player_call_def Let_def split: option.splits)

lemma votes_player_call:
  "votes (snd (player_call e ev (set_playing g b) s)) = votes s"
  by (simp add: player_call_def set_playing_def Let_def split: option.splits)

lemma votes_player_skip: "votes (snd (player_skip e g c s)) = votes s"
  by (simp add: player_skip_def player_call_def Let_def split: option.splits)

lemma do_skip_state: "snd (do_skip e msg c s) = snd (player_skip e (msg_guild_id msg) c s)"
  by (simp add: do_skip_def split: prod.splits sum.splits)

lemma do_skip_result:
  "player_throws e (EvSkip (msg_guild_id msg) c) = None \<Longrightarrow> fst (do_skip e msg c s) = Inr Skipped"
  by (simp add: do_skip_def player_skip_def player_call_def Let_def)

text \<open>
  No method of the class creates \<open>this.votes\<close>: on an instance where it is
  \<open>undefined\<close> it stays so after \<open>connect\<close>, \<open>play\<close>, \<open>add\<close> and \<open>skip\<close>.
\<close>

lemma votes_connect: "votes (snd (connect e v tc s)) = votes s"
  by (simp add: connect_def bindChannel_def Let_def split: option.splits prod.splits)

lemma votes_play: "votes (snd (play e ch m s)) = votes s"
proof (cases "bot_alone e ch")
  case True
  then show ?thesis by (simp add: play_bot_alone player_stop_def votes_player_call)
next
  case False
  show ?thesis
  proof (cases "queues s (guild_id (vc_guild ch))")
    case Nil
    with False show ?thesis by (simp add: play_no_songs)
  next
    case (Cons item rest)
    show ?thesis
      unfolding play_nonempty [OF False Cons]
      by (simp add: Let_def player_play_def player_stop_def votes_player_call queue_remove_def
            split: sum.splits option.splits)
  qed
qed

lemma votes_queueSong: "votes (snd (queueSong e g ch m s)) = votes s"
proof -
  have a: "votes (snd (player_play e ch m None (queue_add g m True s))) = votes s"
    by (simp add: player_play_def votes_player_call queue_add_def)
  have b: "votes (snd (play e ch Falsy (queue_add g m True s))) = votes s"
    by (simp add: votes_play queue_add_def)
  show ?thesis
    using a b
    by (auto simp: queueSong_def Let_def queue_add_def split: sum.splits prod.splits)
qed

lemma votes_add: "votes (snd (add e g ch u s)) = votes s"
  by (simp add: add_def votes_queueSong split: sum.splits)

lemma votes_skip_undefined: "votes s = None \<Longrightarrow> votes (snd (skip e msg force s)) = None"
  by (simp add: skip_def Let_def do_skip_state votes_player_skip split: option.splits)

text \<open>
  Claim C8. The claim describes the vote protocol of lines 206 to 220. On the instance as
  the class constructs it the protocol is never reached: \<open>this.votes\<close> is not created
  (the constructor creates only \<open>connections\<close> and \<open>volume\<close>), so a skip that is not
  forced, in a channel with more than 2 members and with more than one queued item, throws
  at \<open>this.votes.get\<close>: no vote is recorded and the player's \<open>skip\<close> is not called.
\<close>

theorem skip_vote_throws:
  assumes "votes s = None"
      and "getChannel e (msg_voice_channelID msg) = Some ch"
      and "members ch > 2"
      and "queue_getLength s (msg_guild_id msg) > 1"
  shows "skip e msg False s = (Inl TypeError, s)"
  using assms by (simp add: skip_def)

text \<open>The first vote in a channel of five members, on the instance as constructed.\<close>

theorem skip_vote_throws_witness:
  "votes initial_state = None
   \<and> skip ex_env (ex_message ''u1'') False ex_queued_state = (Inl TypeError, ex_queued_state)"
proof -
  have v: "votes ex_queued_state = None"
    by (simp add: ex_queued_state_def initial_state_def)
  have ch: "getChannel ex_env (msg_voice_channelID (ex_message ''u1'')) = Some ex_voice_channel"
    by (simp add: ex_env_def)
  have m: "members ex_voice_channel > 2"
    by (simp add: ex_voice_channel_def)
  have q: "queue_getLength ex_queued_state (msg_guild_id (ex_message ''u1'')) > 1"
    by (simp add: queue_getLength_def ex_queued_state_def ex_message_def)
  from skip_vote_throws [OF v ch m q] show ?thesis
    by (simp add: initial_state_def)
qed

text \<open>
  What lines 206 to 220 do once a votes map exists: a requester who has voted already gets
  \<open>alreadyVoted\<close> and nothing changes; otherwise the requester is added to the votes, and
  if the number of votes divided by the number of members is below 0.5 the extended votes
  are stored and \<open>voteSuccess\<close> is returned with no player call; else the number 0 is
  stored, which every later read replaces by the empty array, and the player's \<open>skip\<close>
  is called.
\<close>

lemma skip_vote_protocol:
  assumes "votes s = Some vm"
      and "getChannel e (msg_voice_channelID msg) = Some ch"
      and "members ch > 2"
      and "queue_getLength s (msg_guild_id msg) > 1"
  shows "(msg_author_id msg \<in> set (current_votes vm (msg_guild_id msg)) \<longrightarrow>
            skip e msg False s = (Inr AlreadyVoted, s))
       \<and> (msg_author_id msg \<notin> set (current_votes vm (msg_guild_id msg))
            \<and> real (length (current_votes vm (msg_guild_id msg)) + 1) / real (members ch) < 0.5 \<longrightarrow>
            skip e msg False s
              = (Inr VoteSuccess,
                 s\<lparr>votes := Some (vm(msg_guild_id msg \<mapsto>
                        VArr (current_votes vm (msg_guild_id msg) @ [msg_author_id msg])))\<rparr>))
       \<and> (msg_author_id msg \<notin> set (current_votes vm (msg_guild_id msg))
            \<and> \<not> real (length (current_votes vm (msg_guild_id msg)) + 1) / real (members ch) < 0.5 \<longrightarrow>
            votes (snd (skip e msg False s)) = Some (vm(msg_guild_id msg \<mapsto> VZero))
            \<and> trace (snd (skip e msg False s)) = trace s @ [EvSkip (msg_guild_id msg) (Some ch)]
            \<and> (player_throws e (EvSkip (msg_guild_id msg) (Some ch)) = None \<longrightarrow>
                 fst (skip e msg False s) = Inr Skipped))"
  using assms
  by (simp add: skip_def Let_def do_skip_state do_skip_result trace_player_skip
        votes_player_skip)

lemma skip_vote_protocol_example:
  "skip ex_env (ex_message ''u2'') False (ex_vote_state [''u1''])
     = (Inr VoteSuccess, ex_vote_state [''u1'', ''u2''])
   \<and> fst (skip ex_env (ex_message ''u3'') False (ex_vote_state [''u1'', ''u2''])) = Inr Skipped
   \<and> votes (snd (skip ex_env (ex_message ''u3'') False (ex_vote_state [''u1'', ''u2''])))
       = Some [''g1'' \<mapsto> VZero]
   \<and> trace (snd (skip ex_env (ex_message ''u3'') False (ex_vote_state [''u1'', ''u2''])))
       = [EvSkip ''g1'' (Some ex_voice_channel)]
   \<and> skip ex_env (ex_message ''u2'') False (ex_vote_state [''u1'', ''u2''])
     = (Inr AlreadyVoted, ex_vote_state [''u1'', ''u2''])"
proof -
  have v: "votes (ex_vote_state vs) = Some [''g1'' \<mapsto> VArr vs]" for vs
    by (simp add: ex_vote_state_def)
  have ch: "getChannel ex_env (msg_voice_channelID (ex_message a)) = Some ex_voice_channel" for a
    by (simp add: ex_env_def)
  have m: "members ex_voice_channel > 2"
    by (simp add: ex_voice_channel_def)
  have q: "queue_getLength (ex_vote_state vs) (msg_guild_id (ex_message a)) > 1" for vs a
    by (simp add: queue_getLength_def ex_vote_state_def ex_queued_state_def ex_message_def)
  from skip_vote_protocol [OF v [of "[''u1'', ''u2'']"] ch [of "''u3''"] m
                             q [of "[''u1'', ''u2'']" "''u3''"]]
       skip_vote_protocol [OF v [of "[''u1'', ''u2'']"] ch [of "''u2''"] m
                             q [of "[''u1'', ''u2'']" "''u2''"]]
       skip_vote_protocol [OF v [of "[''u1'']"] ch [of "''u2''"] m q [of "[''u1'']" "''u2''"]]
  show ?thesis
    by (simp add: current_votes_def ex_vote_state_def ex_message_def ex_voice_channel_def
          ex_queued_state_def initial_state_def ex_env_def)
qed

end
